theory Spec2Isabelle
  imports Main "HOL-Library.Word"
begin

unbundle bit_operations_syntax

text \<open>
  The client of a small multiplayer game: \<open>Socket\<close> (socket.ts) receives the events of the
  server and sends the moves of the player, \<open>Graphics\<close> (graphics.ts) keeps the position of
  each ship in a \<open>Map\<close> and draws it, \<open>Game\<close> (game.ts) ties them to the keyboard and to
  the frame loop. Each method is a function from the state before to the state after; a
  method that can throw returns the exception beside the state it leaves.
\<close>

section \<open>Values that cross the wire\<close>

text \<open>
  A JavaScript number is an IEEE-754 binary64; it is held here by its 64 bits, so that the
  numeric enums of the source and the strict comparisons made on them are exact.
\<close>

type_synonym number = "64 word"

definition num_0 :: number where "num_0 = 0x0000000000000000"
definition num_1 :: number where "num_1 = 0x3FF0000000000000"
definition num_2 :: number where "num_2 = 0x4000000000000000"
definition num_3 :: number where "num_3 = 0x4008000000000000"

definition is_NaN :: "number \<Rightarrow> bool" where
  "is_NaN a = (0x7FF0000000000000 < (a AND 0x7FFFFFFFFFFFFFFF))"

definition is_zero :: "number \<Rightarrow> bool" where
  "is_zero a = (a AND 0x7FFFFFFFFFFFFFFF = 0)"

definition is_finite :: "number \<Rightarrow> bool" where
  "is_finite a = (a AND 0x7FF0000000000000 \<noteq> 0x7FF0000000000000)"

text \<open>\<open>a === b\<close> on two numbers: NaN equals nothing, the two zeros equal each other.\<close>

definition number_strict_equals :: "number \<Rightarrow> number \<Rightarrow> bool" where
  "number_strict_equals a b =
     (\<not> is_NaN a \<and> \<not> is_NaN b \<and> (a = b \<or> (is_zero a \<and> is_zero b)))"

text \<open>
  The text of a message is held by the value it denotes: what \<open>JSON.parse\<close> returns for
  it, and what \<open>JSON.stringify\<close> was given to write. An object is the list of its members in
  the order the language enumerates them, each name once.
\<close>

datatype json =
    JsonNull
  | JsonBool bool
  | JsonNum number
  | JsonStr string
  | JsonArr "json list"
  | JsonObj "(string \<times> json) list"

text \<open>A JavaScript value met by this program is a JSON value or \<open>undefined\<close> (\<open>None\<close>).\<close>

type_synonym jsvalue = "json option"

datatype error = SyntaxError | TypeError

text \<open>What a message event carries: text that is JSON, or text that is not.\<close>

datatype wire = NotJSON string | JSON json

definition JSON_parse :: "wire \<Rightarrow> error + json" where
  "JSON_parse message = (case message of NotJSON s \<Rightarrow> Inl SyntaxError | JSON v \<Rightarrow> Inr v)"

text \<open>
  \<open>v.name\<close> for the member names this program reads (\<open>type\<close>, \<open>player\<close>, \<open>playerId\<close>,
  \<open>players\<close>, \<open>id\<close>, \<open>x\<close>, \<open>y\<close>): none of them is a built-in property of a string, number,
  boolean, array or plain object, so only an own member of an object answers; reading a
  member of \<open>null\<close> or \<open>undefined\<close> throws.
\<close>

fun get_property :: "jsvalue \<Rightarrow> string \<Rightarrow> error + jsvalue" where
  "get_property None name = Inl TypeError"
| "get_property (Some JsonNull) name = Inl TypeError"
| "get_property (Some (JsonObj kvs)) name = Inr (map_of kvs name)"
| "get_property (Some v) name = Inr None"

text \<open>\<open>v === n\<close> for a numeric literal \<open>n\<close>, as the \<open>switch\<close> of the source compares.\<close>

fun strict_equals_number :: "jsvalue \<Rightarrow> number \<Rightarrow> bool" where
  "strict_equals_number (Some (JsonNum a)) n = number_strict_equals a n"
| "strict_equals_number v n = False"

section \<open>The enums and types of the protocol\<close>

datatype ClientMessageType = MOVE

fun ClientMessageType_value :: "ClientMessageType \<Rightarrow> number" where
  "ClientMessageType_value MOVE = num_0"

datatype ServerMessageType = CONNECT | DISCONNECT | UPDATE

fun ServerMessageType_value :: "ServerMessageType \<Rightarrow> number" where
  "ServerMessageType_value CONNECT = num_0"
| "ServerMessageType_value DISCONNECT = num_1"
| "ServerMessageType_value UPDATE = num_2"

datatype PlayerAction = FORWARD | RIGHT | LEFT | BACKWARD

fun PlayerAction_value :: "PlayerAction \<Rightarrow> number" where
  "PlayerAction_value FORWARD = num_0"
| "PlayerAction_value RIGHT = num_1"
| "PlayerAction_value LEFT = num_2"
| "PlayerAction_value BACKWARD = num_3"

definition Controls_UP :: string where "Controls_UP = ''ArrowUp''"
definition Controls_DOWN :: string where "Controls_DOWN = ''ArrowDown''"
definition Controls_LEFT :: string where "Controls_LEFT = ''ArrowLeft''"
definition Controls_RIGHT :: string where "Controls_RIGHT = ''ArrowRight''"

record SpaceShip =
  ship_id :: string
  ship_x :: number
  ship_y :: number

datatype ServerMessage =
    Connect SpaceShip
  | Disconnect string
  | Update "SpaceShip list"

record ClientMessage =
  msg_type :: ClientMessageType
  msg_playerId :: jsvalue
  msg_action :: PlayerAction


section \<open>The addition of the host language\<close>

text \<open>
  \<open>a + b\<close> of JavaScript rounds as binary64 on two numbers, gives NaN with
  \<open>undefined\<close> and concatenates with a string: its result is a number or a string. The
  development does not fix it: every function that adds takes the operator as its first
  argument, and every theorem holds for each operator.
\<close>

type_synonym addition = "jsvalue \<Rightarrow> jsvalue \<Rightarrow> json"

section \<open>Graphics (graphics.ts)\<close>

subsection \<open>The built-in Map\<close>

text \<open>
  Keys are compared by SameValueZero. An object or an array is a key by reference; each one
  that reaches the map was just built by \<open>JSON.parse\<close>, so it equals no key already there.
\<close>

fun same_value_zero :: "jsvalue \<Rightarrow> jsvalue \<Rightarrow> bool" where
  "same_value_zero None None = True"
| "same_value_zero (Some JsonNull) (Some JsonNull) = True"
| "same_value_zero (Some (JsonBool a)) (Some (JsonBool b)) = (a = b)"
| "same_value_zero (Some (JsonNum a)) (Some (JsonNum b)) =
     ((is_NaN a \<and> is_NaN b) \<or> number_strict_equals a b)"
| "same_value_zero (Some (JsonStr a)) (Some (JsonStr b)) = (a = b)"
| "same_value_zero a b = False"

type_synonym 'v js_map = "(jsvalue \<times> 'v) list"

text \<open>
  Entries in insertion order; a key \<open>-0\<close> is stored as \<open>+0\<close>. A Map holds at most one
  entry under a key, so \<open>set\<close> on a key that is present replaces the value of that entry in
  its place, and \<open>delete\<close> removes it; the functions below say so for every entry of the
  key, which is that one entry.
\<close>

fun Map_key :: "jsvalue \<Rightarrow> jsvalue" where
  "Map_key (Some (JsonNum a)) = Some (JsonNum (if is_zero a then num_0 else a))"
| "Map_key k = k"

definition Map_has :: "'v js_map \<Rightarrow> jsvalue \<Rightarrow> bool" where
  "Map_has m k = list_ex (\<lambda>(k', v'). same_value_zero k' k) m"

definition Map_get :: "'v js_map \<Rightarrow> jsvalue \<Rightarrow> 'v option" where
  "Map_get m k = map_option snd (find (\<lambda>(k', v'). same_value_zero k' k) m)"

definition Map_set :: "'v js_map \<Rightarrow> jsvalue \<Rightarrow> 'v \<Rightarrow> 'v js_map" where
  "Map_set m k v =
     (if Map_has m k
      then map (\<lambda>(k', v'). if same_value_zero k' k then (k', v) else (k', v')) m
      else m @ [(Map_key k, v)])"

definition Map_delete :: "'v js_map \<Rightarrow> jsvalue \<Rightarrow> 'v js_map" where
  "Map_delete m k = filter (\<lambda>(k', v'). \<not> same_value_zero k' k) m"

subsection \<open>The rendering context\<close>

type_synonym WebGLProgram = nat
type_synonym WebGLUniformLocation = nat
type_synonym WebGLBuffer = nat

datatype gl_call =
    Viewport nat nat nat nat
  | UseProgram WebGLProgram
  | ClearColor
  | Clear
  | EnableVertexAttribArray int
  | BindBuffer "WebGLBuffer option"
  | BufferData "json list"
  | VertexAttribPointer int
  | Uniform4f "WebGLUniformLocation option"
  | DrawArrays nat nat

text \<open>
  The canvas of the context with its size, the size at which the page displays it (the
  rounded product of its bounding rectangle and the device pixel ratio), and the calls
  received so far.
\<close>

record WebGLRenderingContext =
  canvas_width :: nat
  canvas_height :: nat
  display_width :: nat
  display_height :: nat
  calls :: "gl_call list"

record Graphics =
  gl :: "WebGLRenderingContext option"
  program :: "WebGLProgram option"
  positionAttributeLocation :: int
  colorUniformLocation :: "WebGLUniformLocation option"
  positionBuffer :: "WebGLBuffer option"
  positions :: "json list js_map"

text \<open>\<open>[-0.05, 0.0, 0.0, 0.1, 0.05, 0.0]\<close>\<close>

definition startingPosition :: "number list" where
  "startingPosition =
     [0xBFA999999999999A, 0x0000000000000000, 0x0000000000000000,
      0x3FB999999999999A, 0x3FA999999999999A, 0x0000000000000000]"

text \<open>\<open>xs[i]\<close>: \<open>undefined\<close> beyond the end.\<close>

definition index :: "number list \<Rightarrow> nat \<Rightarrow> jsvalue" where
  "index xs i = (if i < length xs then Some (JsonNum (xs ! i)) else None)"

function updatedPosition_loop :: "addition \<Rightarrow> jsvalue \<Rightarrow> jsvalue \<Rightarrow> nat \<Rightarrow> json list \<Rightarrow> json list" where
  "updatedPosition_loop add xOffset yOffset i updatedPosition =
     (if i < length startingPosition
      then (let x = add (index startingPosition i) xOffset;
                y = add (index startingPosition (i + 1)) yOffset
            in updatedPosition_loop add xOffset yOffset (i + 2) (updatedPosition @ [x, y]))
      else updatedPosition)"
  by pat_completeness auto
termination
  by (relation "measure (\<lambda>(add, xOffset, yOffset, i, updatedPosition). length startingPosition - i)") auto

declare updatedPosition_loop.simps [simp del]

definition updateTrianglePosition :: "addition \<Rightarrow> Graphics \<Rightarrow> jsvalue \<Rightarrow> jsvalue \<Rightarrow> jsvalue \<Rightarrow> Graphics" where
  "updateTrianglePosition add g ident xOffset yOffset =
     (let updatedPosition = updatedPosition_loop add xOffset yOffset 0 []
      in g\<lparr>positions := Map_set (positions g) ident updatedPosition\<rparr>)"

definition removeTriangle :: "Graphics \<Rightarrow> jsvalue \<Rightarrow> Graphics" where
  "removeTriangle g ident = g\<lparr>positions := Map_delete (positions g) ident\<rparr>"

definition resizeCanvasToDisplaySize :: "WebGLRenderingContext \<Rightarrow> bool \<times> WebGLRenderingContext" where
  "resizeCanvasToDisplaySize c =
     (let displayWidth = display_width c;
          displayHeight = display_height c;
          needResize = (canvas_width c \<noteq> displayWidth \<or> canvas_height c \<noteq> displayHeight)
      in (needResize,
          if needResize then c\<lparr>canvas_width := displayWidth, canvas_height := displayHeight\<rparr>
          else c))"

definition gl_do :: "gl_call list \<Rightarrow> WebGLRenderingContext \<Rightarrow> WebGLRenderingContext" where
  "gl_do cs c = c\<lparr>calls := calls c @ cs\<rparr>"

definition drawTriangle :: "Graphics \<Rightarrow> json list \<Rightarrow> WebGLRenderingContext \<Rightarrow> WebGLRenderingContext" where
  "drawTriangle g points c =
     gl_do [BufferData points,
            VertexAttribPointer (positionAttributeLocation g),
            Uniform4f (colorUniformLocation g),
            DrawArrays 0 3] c"

definition drawScene :: "Graphics \<Rightarrow> Graphics" where
  "drawScene g =
     (case gl g of
        None \<Rightarrow> g
      | Some c \<Rightarrow>
          (case program g of
             None \<Rightarrow> g
           | Some prog \<Rightarrow>
               (let c1 = snd (resizeCanvasToDisplaySize c);
                    c2 = gl_do [Viewport 0 0 (canvas_width c1) (canvas_height c1),
                                UseProgram prog,
                                ClearColor,
                                Clear,
                                EnableVertexAttribArray (positionAttributeLocation g),
                                BindBuffer (positionBuffer g)] c1;
                    c3 = fold (\<lambda>(k, position). drawTriangle g position) (positions g) c2
                in g\<lparr>gl := Some c3\<rparr>)))"


section \<open>Socket (socket.ts)\<close>

text \<open>What \<open>JSON.stringify\<close> writes for a parsed value: \<open>null\<close> for a number that is not
  finite, \<open>0\<close> for \<open>-0\<close>.\<close>

fun JSON_stringify_value :: "json \<Rightarrow> json" where
  "JSON_stringify_value (JsonNum a) =
     (if is_finite a then JsonNum (if is_zero a then num_0 else a) else JsonNull)"
| "JSON_stringify_value (JsonArr vs) = JsonArr (map JSON_stringify_value vs)"
| "JSON_stringify_value (JsonObj kvs) = JsonObj (map (map_prod (\<lambda>k. k) JSON_stringify_value) kvs)"
| "JSON_stringify_value v = v"

text \<open>The three members in the order of the object literal; one whose value is
  \<open>undefined\<close> is left out of the text.\<close>

definition JSON_stringify :: "ClientMessage \<Rightarrow> json" where
  "JSON_stringify message =
     JsonObj ([(''type'', JsonNum (ClientMessageType_value (msg_type message)))]
              @ (case msg_playerId message of
                   None \<Rightarrow> []
                 | Some v \<Rightarrow> [(''playerId'', JSON_stringify_value v)])
              @ [(''action'', JsonNum (PlayerAction_value (msg_action message)))])"

text \<open>The transport: the texts handed to \<open>send\<close>, oldest first, and whether \<open>close\<close>
  was called.\<close>

record WebSocket =
  sent :: "json list"
  close_called :: bool

definition WebSocket_send :: "WebSocket \<Rightarrow> json \<Rightarrow> WebSocket" where
  "WebSocket_send ws data = ws\<lparr>sent := sent ws @ [data]\<rparr>"

definition WebSocket_close :: "WebSocket \<Rightarrow> WebSocket" where
  "WebSocket_close ws = ws\<lparr>close_called := True\<rparr>"

record Socket =
  socket_open :: bool
  connection :: WebSocket
  socket_id :: jsvalue

definition handleOpen :: "Socket \<Rightarrow> Socket" where
  "handleOpen s = s\<lparr>socket_open := True\<rparr>"

definition handleClose :: "Socket \<Rightarrow> Socket" where
  "handleClose s = s\<lparr>socket_open := False\<rparr>"

definition sendMessage :: "Socket \<Rightarrow> ClientMessage \<Rightarrow> Socket" where
  "sendMessage s message =
     (if \<not> socket_open s then s
      else s\<lparr>connection := WebSocket_send (connection s) (JSON_stringify message)\<rparr>)"

definition sendAction :: "Socket \<Rightarrow> PlayerAction \<Rightarrow> Socket" where
  "sendAction s moveAction =
     (let message = \<lparr>msg_type = MOVE, msg_playerId = socket_id s, msg_action = moveAction\<rparr>
      in sendMessage s message)"

definition disconnect :: "Socket \<Rightarrow> Socket" where
  "disconnect s = s\<lparr>connection := WebSocket_close (connection s)\<rparr>"

section \<open>Game (game.ts)\<close>

text \<open>The socket, the graphics, and the errors written to the console of the page.\<close>

record Game =
  socket :: Socket
  graphics :: Graphics
  console :: "error list"

text \<open>The two callbacks the constructor gives to the socket.\<close>

definition onServerMessage :: "addition \<Rightarrow> jsvalue \<Rightarrow> Graphics \<Rightarrow> error + Graphics" where
  "onServerMessage add payload g =
     (case get_property payload ''id'' of
        Inl e \<Rightarrow> Inl e
      | Inr ident \<Rightarrow>
          (case get_property payload ''x'' of
             Inl e \<Rightarrow> Inl e
           | Inr x \<Rightarrow>
               (case get_property payload ''y'' of
                  Inl e \<Rightarrow> Inl e
                | Inr y \<Rightarrow> Inr (updateTrianglePosition add g ident x y))))"

definition onDisconnect :: "jsvalue \<Rightarrow> Graphics \<Rightarrow> Graphics" where
  "onDisconnect ident g = removeTriangle g ident"

subsection \<open>Socket.handleMessage\<close>

text \<open>\<open>players.forEach\<close>: an exception of the callback ends the iteration; what the earlier
  calls did stays done.\<close>

fun forEach_players :: "addition \<Rightarrow> json list \<Rightarrow> Graphics \<Rightarrow> Graphics \<times> error option" where
  "forEach_players add [] g = (g, None)"
| "forEach_players add (player # players) g =
     (case onServerMessage add (Some player) g of
        Inl e \<Rightarrow> (g, Some e)
      | Inr g' \<Rightarrow> forEach_players add players g')"

text \<open>The body of the \<open>try\<close>: the state it leaves and the exception it throws, if any.\<close>

definition handleMessage_try :: "addition \<Rightarrow> Game \<Rightarrow> wire \<Rightarrow> Game \<times> error option" where
  "handleMessage_try add g message =
     (case JSON_parse message of
        Inl e \<Rightarrow> (g, Some e)
      | Inr gameEvent \<Rightarrow>
          (case get_property (Some gameEvent) ''type'' of
             Inl e \<Rightarrow> (g, Some e)
           | Inr t \<Rightarrow>
               if strict_equals_number t (ServerMessageType_value CONNECT) then
                 (case get_property (Some gameEvent) ''player'' of
                    Inl e \<Rightarrow> (g, Some e)
                  | Inr player \<Rightarrow>
                      (case get_property player ''id'' of
                         Inl e \<Rightarrow> (g, Some e)
                       | Inr ident \<Rightarrow>
                           (let g1 = g\<lparr>socket := (socket g)\<lparr>socket_id := ident\<rparr>\<rparr>
                            in case onServerMessage add player (graphics g1) of
                                 Inl e \<Rightarrow> (g1, Some e)
                               | Inr gr \<Rightarrow> (g1\<lparr>graphics := gr\<rparr>, None))))
               else if strict_equals_number t (ServerMessageType_value DISCONNECT) then
                 (case get_property (Some gameEvent) ''playerId'' of
                    Inl e \<Rightarrow> (g, Some e)
                  | Inr playerId \<Rightarrow> (g\<lparr>graphics := onDisconnect playerId (graphics g)\<rparr>, None))
               else if strict_equals_number t (ServerMessageType_value UPDATE) then
                 (case get_property (Some gameEvent) ''players'' of
                    Inl e \<Rightarrow> (g, Some e)
                  | Inr (Some (JsonArr players)) \<Rightarrow>
                      (case forEach_players add players (graphics g) of
                         (gr, thrown) \<Rightarrow> (g\<lparr>graphics := gr\<rparr>, thrown))
                  | Inr other \<Rightarrow> (g, Some TypeError))
               else (g, None)))"

text \<open>\<open>try { ... } catch (error) { console.error(...) }\<close>: the second component is the
  exception that leaves \<open>handleMessage\<close>.\<close>

definition handleMessage :: "addition \<Rightarrow> Game \<Rightarrow> wire \<Rightarrow> Game \<times> error option" where
  "handleMessage add g message =
     (case handleMessage_try add g message of
        (g', None) \<Rightarrow> (g', None)
      | (g', Some e) \<Rightarrow> (g'\<lparr>console := console g' @ [e]\<rparr>, None))"

text \<open>The messages of a connection, handled one after the other.\<close>

fun handleMessages :: "addition \<Rightarrow> Game \<Rightarrow> wire list \<Rightarrow> Game" where
  "handleMessages add g [] = g"
| "handleMessages add g (message # messages) =
     handleMessages add (fst (handleMessage add g message)) messages"

subsection \<open>The frame and the keyboard\<close>

text \<open>One turn of \<open>loop\<close>; the next is the host's to schedule.\<close>

definition loop :: "Game \<Rightarrow> Game" where
  "loop g = g\<lparr>graphics := drawScene (graphics g)\<rparr>"

definition onKeyPress :: "Game \<Rightarrow> string \<Rightarrow> Game" where
  "onKeyPress g key =
     (let (action, g1) =
            (if key = Controls_UP then (Some FORWARD, g)
             else if key = Controls_DOWN then (Some BACKWARD, g)
             else if key = Controls_LEFT then (Some LEFT, g)
             else if key = Controls_RIGHT then (Some RIGHT, g)
             else if key = ''Escape'' then (None, g\<lparr>socket := disconnect (socket g)\<rparr>)
             else (None, g))
      in case action of
           None \<Rightarrow> g1
         | Some a \<Rightarrow> g1\<lparr>socket := sendAction (socket g1) a\<rparr>)"


section \<open>Values of the declared types\<close>

text \<open>
  The types \<open>SpaceShip\<close> and \<open>ServerMessage\<close> of the source are erased when it runs:
  \<open>handleMessage\<close> casts whatever \<open>JSON.parse\<close> returns. These functions read a parsed
  value at its declared type, and answer \<open>None\<close> when it has not that type. Members may
  come in any order and others may stand beside them.
\<close>

definition as_SpaceShip :: "jsvalue \<Rightarrow> SpaceShip option" where
  "as_SpaceShip v =
     (case (get_property v ''id'', get_property v ''x'', get_property v ''y'') of
        (Inr (Some (JsonStr i)), Inr (Some (JsonNum x)), Inr (Some (JsonNum y))) \<Rightarrow>
          Some \<lparr>ship_id = i, ship_x = x, ship_y = y\<rparr>
      | _ \<Rightarrow> None)"

definition as_ServerMessage :: "json \<Rightarrow> ServerMessage option" where
  "as_ServerMessage v =
     (case get_property (Some v) ''type'' of
        Inl e \<Rightarrow> None
      | Inr t \<Rightarrow>
          if strict_equals_number t (ServerMessageType_value CONNECT) then
            (case get_property (Some v) ''player'' of
               Inr player \<Rightarrow> map_option Connect (as_SpaceShip player)
             | Inl e \<Rightarrow> None)
          else if strict_equals_number t (ServerMessageType_value DISCONNECT) then
            (case get_property (Some v) ''playerId'' of
               Inr (Some (JsonStr i)) \<Rightarrow> Some (Disconnect i)
             | _ \<Rightarrow> None)
          else if strict_equals_number t (ServerMessageType_value UPDATE) then
            (case get_property (Some v) ''players'' of
               Inr (Some (JsonArr players)) \<Rightarrow>
                 map_option Update (those (map (\<lambda>player. as_SpaceShip (Some player)) players))
             | _ \<Rightarrow> None)
          else None)"

definition decode :: "wire \<Rightarrow> ServerMessage option" where
  "decode message = (case message of NotJSON s \<Rightarrow> None | JSON v \<Rightarrow> as_ServerMessage v)"

text \<open>What the two callbacks do with a ship of the declared type.\<close>

definition render_position :: "addition \<Rightarrow> SpaceShip \<Rightarrow> json list" where
  "render_position add s =
     updatedPosition_loop add (Some (JsonNum (ship_x s))) (Some (JsonNum (ship_y s))) 0 []"

definition upsert :: "addition \<Rightarrow> SpaceShip \<Rightarrow> Graphics \<Rightarrow> Graphics" where
  "upsert add s g =
     updateTrianglePosition add g (Some (JsonStr (ship_id s)))
       (Some (JsonNum (ship_x s))) (Some (JsonNum (ship_y s)))"

text \<open>\<open>upsert\<close> on the map alone, and the value a batch of ships leaves under a key.\<close>

definition put :: "addition \<Rightarrow> SpaceShip \<Rightarrow> json list js_map \<Rightarrow> json list js_map" where
  "put add s m = Map_set m (Some (JsonStr (ship_id s))) (render_position add s)"

definition override :: "addition \<Rightarrow> SpaceShip list \<Rightarrow> jsvalue \<Rightarrow> json list \<Rightarrow> json list" where
  "override add ships k v =
     fold (\<lambda>s v'. if k = Some (JsonStr (ship_id s)) then render_position add s else v') ships v"

text \<open>The identifier of the last \<open>CONNECT\<close> of a sequence of events.\<close>

fun last_connect :: "ServerMessage list \<Rightarrow> string option" where
  "last_connect [] = None"
| "last_connect (Connect s # ms) =
     (case last_connect ms of None \<Rightarrow> Some (ship_id s) | Some i \<Rightarrow> Some i)"
| "last_connect (m # ms) = last_connect ms"

text \<open>
  A value that \<open>handleMessage\<close> gives up on before it has called a callback or assigned
  anything: its \<open>type\<close> is none of the three numbers (or cannot be read), or it is a
  \<open>CONNECT\<close> without a \<open>player\<close>, or an \<open>UPDATE\<close> whose \<open>players\<close> is not an array. A
  message is inert when it is not JSON or denotes such a value.
\<close>

definition unrecognised :: "json \<Rightarrow> bool" where
  "unrecognised v =
     (case get_property (Some v) ''type'' of
        Inl e \<Rightarrow> True
      | Inr t \<Rightarrow>
          if strict_equals_number t (ServerMessageType_value CONNECT) then
            (case get_property (Some v) ''player'' of
               Inr None \<Rightarrow> True
             | Inr (Some JsonNull) \<Rightarrow> True
             | _ \<Rightarrow> False)
          else if strict_equals_number t (ServerMessageType_value DISCONNECT) then False
          else if strict_equals_number t (ServerMessageType_value UPDATE) then
            (case get_property (Some v) ''players'' of
               Inr (Some (JsonArr players)) \<Rightarrow> False
             | _ \<Rightarrow> True)
          else True)"

definition inert :: "wire \<Rightarrow> bool" where
  "inert message = (case message of NotJSON s \<Rightarrow> True | JSON v \<Rightarrow> unrecognised v)"

section \<open>States and operators for the examples\<close>

text \<open>
  The addition on the operands the examples meet: a number and a zero (\<open>x + 0\<close> is \<open>x\<close>;
  two zeros add to \<open>-0\<close> only when both are \<open>-0\<close>), each starting coordinate and one
  (\<open>-0.05 + 1\<close>, \<open>0 + 1\<close>, \<open>0.1 + 1\<close>, \<open>0.05 + 1\<close>, rounded as binary64), and a number
  and \<open>undefined\<close>, which is NaN. Elsewhere it answers NaN as well, and no example goes
  there.
\<close>

definition add_sample :: addition where
  "add_sample a b =
     (case (a, b) of
        (Some (JsonNum x), Some (JsonNum y)) \<Rightarrow>
          if is_zero y then JsonNum (if is_zero x then x AND y else x)
          else if y = num_1 \<and> x = 0xBFA999999999999A then JsonNum 0x3FEE666666666666
          else if y = num_1 \<and> is_zero x then JsonNum num_1
          else if y = num_1 \<and> x = 0x3FB999999999999A then JsonNum 0x3FF199999999999A
          else if y = num_1 \<and> x = 0x3FA999999999999A then JsonNum 0x3FF0CCCCCCCCCCCD
          else JsonNum 0x7FF8000000000000
      | _ \<Rightarrow> JsonNum 0x7FF8000000000000)"

definition socket_0 :: Socket where
  "socket_0 = \<lparr>socket_open = False, connection = \<lparr>sent = [], close_called = False\<rparr>,
                socket_id = None\<rparr>"

definition graphics_0 :: Graphics where
  "graphics_0 =
     \<lparr>gl = Some \<lparr>canvas_width = 300, canvas_height = 150, display_width = 640,
                 display_height = 480, calls = []\<rparr>,
      program = Some 1, positionAttributeLocation = 0, colorUniformLocation = Some 1,
      positionBuffer = Some 1, positions = []\<rparr>"

definition game_0 :: Game where
  "game_0 = \<lparr>socket = socket_0, graphics = graphics_0, console = []\<rparr>"

definition ship_json :: "string \<Rightarrow> number \<Rightarrow> number \<Rightarrow> json" where
  "ship_json i x y = JsonObj [(''id'', JsonStr i), (''x'', JsonNum x), (''y'', JsonNum y)]"

definition connect_json :: "json \<Rightarrow> json" where
  "connect_json player = JsonObj [(''type'', JsonNum num_0), (''player'', player)]"

definition disconnect_json :: "string \<Rightarrow> json" where
  "disconnect_json i = JsonObj [(''type'', JsonNum num_1), (''playerId'', JsonStr i)]"

definition update_json :: "json list \<Rightarrow> json" where
  "update_json players = JsonObj [(''type'', JsonNum num_2), (''players'', JsonArr players)]"

definition batch_sample :: "json list" where
  "batch_sample = [ship_json ''p1'' num_0 num_0, ship_json ''p2'' num_0 num_1,
                   ship_json ''p1'' num_1 num_0]"

definition ships_sample :: "SpaceShip list" where
  "ships_sample = [\<lparr>ship_id = ''p1'', ship_x = num_0, ship_y = num_0\<rparr>,
                   \<lparr>ship_id = ''p2'', ship_x = num_0, ship_y = num_1\<rparr>,
                   \<lparr>ship_id = ''p1'', ship_x = num_1, ship_y = num_0\<rparr>]"

section \<open>Lemmas on the Map at a string key\<close>

lemma svz_str_right: "same_value_zero k (Some (JsonStr i)) \<longleftrightarrow> k = Some (JsonStr i)"
  by (cases "(k, Some (JsonStr i))" rule: same_value_zero.cases) auto

lemma svz_str_left: "same_value_zero (Some (JsonStr i)) k \<longleftrightarrow> k = Some (JsonStr i)"
  by (cases "(Some (JsonStr i), k)" rule: same_value_zero.cases) auto

lemma Map_get_str: "Map_get m (Some (JsonStr i)) = map_of m (Some (JsonStr i))"
  unfolding Map_get_def by (induction m) (auto simp: svz_str_right)

lemma Map_has_str: "Map_has m (Some (JsonStr i)) \<longleftrightarrow> Some (JsonStr i) \<in> fst ` set m"
  unfolding Map_has_def by (induction m) (auto simp: svz_str_right)

lemma Map_set_str:
  "Map_set m (Some (JsonStr i)) v =
     (if Some (JsonStr i) \<in> fst ` set m
      then map (\<lambda>(k', v'). if k' = Some (JsonStr i) then (k', v) else (k', v')) m
      else m @ [(Some (JsonStr i), v)])"
  unfolding Map_set_def by (simp add: Map_has_str svz_str_right)

lemma Map_delete_str:
  "Map_delete m (Some (JsonStr i)) = filter (\<lambda>(k', v'). k' \<noteq> Some (JsonStr i)) m"
  unfolding Map_delete_def by (simp add: svz_str_right)

lemma map_of_replace_same:
  "map_of (map (\<lambda>(k', v'). if k' = K then (k', v) else (k', v')) m) K =
     (if K \<in> fst ` set m then Some v else None)"
  by (induction m) (auto split: prod.splits)

lemma map_of_replace_other:
  "k \<noteq> K \<Longrightarrow>
   map_of (map (\<lambda>(k', v'). if k' = K then (k', v) else (k', v')) m) k = map_of m k"
  by (induction m) (auto split: prod.splits)

lemma map_of_replace:
  "map_of (map (\<lambda>(k', v'). if k' = K then (k', v) else (k', v')) m) k =
     (if k = K \<and> K \<in> fst ` set m then Some v else map_of m k)"
proof (cases "k = K")
  case True
  then show ?thesis using map_of_eq_None_iff[of m K] by (auto simp: map_of_replace_same)
next
  case False
  then show ?thesis by (simp add: map_of_replace_other)
qed

lemma map_of_Map_set_str:
  "map_of (Map_set m (Some (JsonStr i)) v) k = (if k = Some (JsonStr i) then Some v else map_of m k)"
proof (cases "Some (JsonStr i) \<in> fst ` set m")
  case True
  then show ?thesis by (simp add: Map_set_str map_of_replace)
next
  case False
  then have "map_of m (Some (JsonStr i)) = None" by (simp add: map_of_eq_None_iff)
  with False show ?thesis by (simp add: Map_set_str map_add_def split: option.splits)
qed

lemma updatedPosition_loop_unfold:
  "updatedPosition_loop add x y 0 [] =
     [add (Some (JsonNum 0xBFA999999999999A)) x, add (Some (JsonNum 0)) y,
      add (Some (JsonNum 0)) x, add (Some (JsonNum 0x3FB999999999999A)) y,
      add (Some (JsonNum 0x3FA999999999999A)) x, add (Some (JsonNum 0)) y]"
  by (simp add: updatedPosition_loop.simps startingPosition_def index_def Let_def)

section \<open>Sending\<close>

text \<open>
  Claim C1, as the source has it: when the channel is open and the local identity is the
  string \<open>p\<close>, \<open>sendAction\<close> hands to the transport exactly one more text, the
  serialization of \<open>{ type: 0, playerId: p, action: c }\<close> with \<open>c\<close> the code of the action,
  one of 0, 1, 2, 3. The \<open>type\<close> member is the number 0, the value of
  \<open>ClientMessageType.MOVE\<close>.
\<close>

theorem sendAction_identity_set:
  "socket_open s \<Longrightarrow> socket_id s = Some (JsonStr p) \<Longrightarrow>
     sendAction s moveAction =
       s\<lparr>connection := (connection s)\<lparr>sent := sent (connection s) @
           [JsonObj [(''type'', JsonNum (ClientMessageType_value MOVE)),
                     (''playerId'', JsonStr p),
                     (''action'', JsonNum (PlayerAction_value moveAction))]]\<rparr>\<rparr>
     \<and> ClientMessageType_value MOVE = 0
     \<and> PlayerAction_value moveAction \<in> {num_0, num_1, num_2, num_3}"
  by (cases moveAction)
     (simp_all add: sendAction_def sendMessage_def JSON_stringify_def WebSocket_send_def num_0_def)

theorem sendAction_identity_set_witness:
  "socket_open (handleOpen (socket_0\<lparr>socket_id := Some (JsonStr ''p1'')\<rparr>))
   \<and> sent (connection (sendAction (handleOpen (socket_0\<lparr>socket_id := Some (JsonStr ''p1'')\<rparr>)) FORWARD))
       = [JsonObj [(''type'', JsonNum 0), (''playerId'', JsonStr ''p1''), (''action'', JsonNum 0)]]"
  using sendAction_identity_set[of "handleOpen (socket_0\<lparr>socket_id := Some (JsonStr ''p1'')\<rparr>)" "''p1''" FORWARD]
  by (simp add: socket_0_def handleOpen_def num_0_def)

text \<open>
  Claim C1, as it is worded, fails: with identity \<open>p1\<close> on an open channel, the text sent
  for \<open>forward\<close> is not the serialization of \<open>{type: "MOVE", playerId: "p1", action: 0}\<close>;
  its \<open>type\<close> member is the number 0.
\<close>

theorem sendAction_type_not_MOVE_string:
  "sent (connection (sendAction (handleOpen (socket_0\<lparr>socket_id := Some (JsonStr ''p1'')\<rparr>)) FORWARD))
     \<noteq> [JsonObj [(''type'', JsonStr ''MOVE''), (''playerId'', JsonStr ''p1''), (''action'', JsonNum num_0)]]
   \<and> get_property (Some (last (sent (connection
         (sendAction (handleOpen (socket_0\<lparr>socket_id := Some (JsonStr ''p1'')\<rparr>)) FORWARD))))) ''type''
       = Inr (Some (JsonNum num_0))"
  by (simp add: sendAction_def sendMessage_def JSON_stringify_def WebSocket_send_def
        socket_0_def handleOpen_def)

text \<open>
  Claim C4: \<open>sendMessage\<close> on a socket that is not open returns the socket as it was, so
  nothing is handed to the transport and no field changes; after \<open>handleClose\<close>, any
  sequence of \<open>sendMessage\<close> or \<open>sendAction\<close> calls leaves the socket as \<open>handleClose\<close> left
  it, and the list of texts sent as it was before.
\<close>

theorem sendMessage_not_open:
  "(\<not> socket_open s \<longrightarrow> sendMessage s message = s)
   \<and> fold (\<lambda>message s'. sendMessage s' message) messages (handleClose s) = handleClose s
   \<and> sent (connection (fold (\<lambda>moveAction s'. sendAction s' moveAction) actions (handleClose s)))
       = sent (connection s)"
proof -
  have a: "\<And>s message. \<not> socket_open s \<Longrightarrow> sendMessage s message = s"
    by (simp add: sendMessage_def)
  have b: "\<And>s. \<not> socket_open s \<Longrightarrow> fold (\<lambda>message s'. sendMessage s' message) messages s = s"
    by (induction messages) (simp_all add: a)
  have c: "\<And>s. \<not> socket_open s \<Longrightarrow> fold (\<lambda>moveAction s'. sendAction s' moveAction) actions s = s"
    by (induction actions) (simp_all add: a sendAction_def)
  have d: "\<not> socket_open (handleClose s)" by (simp add: handleClose_def)
  show ?thesis using a b[OF d] c[OF d] by (simp add: handleClose_def)
qed

theorem sendMessage_not_open_witness:
  "\<not> socket_open socket_0
   \<and> sendMessage socket_0 \<lparr>msg_type = MOVE, msg_playerId = Some (JsonStr ''p1''), msg_action = LEFT\<rparr> = socket_0
   \<and> sent (connection (fold (\<lambda>moveAction s'. sendAction s' moveAction) [FORWARD, LEFT, FORWARD]
                           (handleClose (handleOpen socket_0)))) = []"
  using sendMessage_not_open[of socket_0 "\<lparr>msg_type = MOVE, msg_playerId = Some (JsonStr ''p1''), msg_action = LEFT\<rparr>" "[]" "[FORWARD, LEFT, FORWARD]"]
        sendMessage_not_open[of "handleOpen socket_0" "\<lparr>msg_type = MOVE, msg_playerId = None, msg_action = LEFT\<rparr>" "[]" "[FORWARD, LEFT, FORWARD]"]
  by (simp add: socket_0_def handleOpen_def)

text \<open>
  Claim C9: on an open channel with the local identity unset, \<open>sendAction\<close> does not reject
  the action: it hands to the transport one more text, the serialization of a message of
  type \<open>MOVE\<close> whose \<open>playerId\<close> is \<open>undefined\<close>, and that text has no \<open>playerId\<close> member.
\<close>

theorem sendAction_unset_identity:
  "socket_open s \<Longrightarrow> socket_id s = None \<Longrightarrow>
     sendAction s moveAction =
       s\<lparr>connection := (connection s)\<lparr>sent := sent (connection s) @
           [JsonObj [(''type'', JsonNum (ClientMessageType_value MOVE)),
                     (''action'', JsonNum (PlayerAction_value moveAction))]]\<rparr>\<rparr>
     \<and> get_property (Some (last (sent (connection (sendAction s moveAction))))) ''playerId''
         = Inr None"
  by (simp add: sendAction_def sendMessage_def JSON_stringify_def WebSocket_send_def)

theorem sendAction_unset_identity_witness:
  "socket_open (handleOpen socket_0) \<and> socket_id (handleOpen socket_0) = None
   \<and> sent (connection (sendAction (handleOpen socket_0) FORWARD))
       = [JsonObj [(''type'', JsonNum 0), (''action'', JsonNum 0)]]"
  using sendAction_unset_identity[of "handleOpen socket_0" FORWARD]
  by (simp add: socket_0_def handleOpen_def num_0_def)

section \<open>The keyboard\<close>

text \<open>
  Claim C8: \<open>ArrowUp\<close> sends \<open>forward\<close> (code 0), \<open>ArrowRight\<close> sends \<open>right\<close> (code 1),
  \<open>ArrowLeft\<close> sends \<open>left\<close> (code 2), \<open>ArrowDown\<close> sends \<open>backward\<close> (code 3); \<open>Escape\<close>
  calls \<open>disconnect\<close> and sends nothing; any other key changes nothing; and no key press
  hands more than one text to the transport.
\<close>

theorem onKeyPress_table:
  "onKeyPress g ''ArrowUp'' = g\<lparr>socket := sendAction (socket g) FORWARD\<rparr>
   \<and> onKeyPress g ''ArrowRight'' = g\<lparr>socket := sendAction (socket g) RIGHT\<rparr>
   \<and> onKeyPress g ''ArrowLeft'' = g\<lparr>socket := sendAction (socket g) LEFT\<rparr>
   \<and> onKeyPress g ''ArrowDown'' = g\<lparr>socket := sendAction (socket g) BACKWARD\<rparr>
   \<and> PlayerAction_value FORWARD = num_0 \<and> PlayerAction_value RIGHT = num_1
   \<and> PlayerAction_value LEFT = num_2 \<and> PlayerAction_value BACKWARD = num_3
   \<and> onKeyPress g ''Escape'' = g\<lparr>socket := disconnect (socket g)\<rparr>
   \<and> sent (connection (socket (onKeyPress g ''Escape''))) = sent (connection (socket g))
   \<and> (key \<notin> {''ArrowUp'', ''ArrowRight'', ''ArrowLeft'', ''ArrowDown'', ''Escape''}
        \<longrightarrow> onKeyPress g key = g)
   \<and> length (sent (connection (socket (onKeyPress g key))))
        \<le> length (sent (connection (socket g))) + 1"
proof -
  have len: "\<And>s a. length (sent (connection (sendAction s a))) \<le> length (sent (connection s)) + 1"
    by (simp add: sendAction_def sendMessage_def WebSocket_send_def)
  have esc: "sent (connection (disconnect (socket g))) = sent (connection (socket g))"
    by (simp add: disconnect_def WebSocket_close_def)
  have keys: "onKeyPress g ''ArrowUp'' = g\<lparr>socket := sendAction (socket g) FORWARD\<rparr>"
    "onKeyPress g ''ArrowRight'' = g\<lparr>socket := sendAction (socket g) RIGHT\<rparr>"
    "onKeyPress g ''ArrowLeft'' = g\<lparr>socket := sendAction (socket g) LEFT\<rparr>"
    "onKeyPress g ''ArrowDown'' = g\<lparr>socket := sendAction (socket g) BACKWARD\<rparr>"
    "onKeyPress g ''Escape'' = g\<lparr>socket := disconnect (socket g)\<rparr>"
    by (simp_all add: onKeyPress_def Controls_UP_def Controls_DOWN_def Controls_LEFT_def
          Controls_RIGHT_def)
  have other: "key \<notin> {''ArrowUp'', ''ArrowRight'', ''ArrowLeft'', ''ArrowDown'', ''Escape''}
        \<Longrightarrow> onKeyPress g key = g"
    by (simp add: onKeyPress_def Controls_UP_def Controls_DOWN_def Controls_LEFT_def
          Controls_RIGHT_def)
  have atmost: "length (sent (connection (socket (onKeyPress g key))))
        \<le> length (sent (connection (socket g))) + 1"
    using len[of "socket g"] esc
    by (simp add: onKeyPress_def Controls_UP_def Controls_DOWN_def Controls_LEFT_def
          Controls_RIGHT_def)
  show ?thesis using keys other atmost esc by simp
qed

theorem onKeyPress_table_witness:
  "''a'' \<notin> {''ArrowUp'', ''ArrowRight'', ''ArrowLeft'', ''ArrowDown'', ''Escape''}
   \<and> onKeyPress (game_0\<lparr>socket := handleOpen socket_0\<rparr>) ''a'' = game_0\<lparr>socket := handleOpen socket_0\<rparr>
   \<and> sent (connection (socket (onKeyPress (game_0\<lparr>socket := handleOpen socket_0\<rparr>) ''ArrowDown'')))
       = [JsonObj [(''type'', JsonNum 0), (''action'', JsonNum 0x4008000000000000)]]"
  using onKeyPress_table[of "game_0\<lparr>socket := handleOpen socket_0\<rparr>" "''a''"]
  by (simp add: game_0_def socket_0_def handleOpen_def sendAction_def sendMessage_def
        JSON_stringify_def WebSocket_send_def num_0_def num_3_def)

section \<open>Rendering\<close>

text \<open>
  Claim C10: \<open>drawScene\<close> leaves the map from identifiers to positions as it was, and a
  turn of the game loop leaves that map and the local identity (the whole socket) as they
  were.
\<close>

theorem drawScene_read_only:
  "positions (drawScene gr) = positions gr
   \<and> positions (graphics (loop g)) = positions (graphics g)
   \<and> socket_id (socket (loop g)) = socket_id (socket g)
   \<and> socket (loop g) = socket g"
proof -
  have "\<And>gr. positions (drawScene gr) = positions gr"
    by (simp add: drawScene_def Let_def split: option.splits)
  then show ?thesis by (simp add: loop_def)
qed

theorem drawScene_read_only_witness:
  "positions (drawScene (graphics_0\<lparr>positions := [(Some (JsonStr ''p1''), [JsonNum num_0])]\<rparr>))
     = [(Some (JsonStr ''p1''), [JsonNum num_0])]
   \<and> map_option calls (gl (drawScene (graphics_0\<lparr>positions := [(Some (JsonStr ''p1''), [JsonNum num_0])]\<rparr>)))
     = Some [Viewport 0 0 640 480, UseProgram 1, ClearColor, Clear, EnableVertexAttribArray 0,
             BindBuffer (Some 1), BufferData [JsonNum num_0], VertexAttribPointer 0,
             Uniform4f (Some 1), DrawArrays 0 3]"
  using drawScene_read_only[of "graphics_0\<lparr>positions := [(Some (JsonStr ''p1''), [JsonNum num_0])]\<rparr>" game_0]
  by (simp add: graphics_0_def drawScene_def resizeCanvasToDisplaySize_def gl_do_def
        drawTriangle_def Let_def)

section \<open>Handling a message of a declared type\<close>

lemma as_SpaceShip_members:
  "as_SpaceShip v = Some s \<Longrightarrow>
     get_property v ''id'' = Inr (Some (JsonStr (ship_id s)))
     \<and> get_property v ''x'' = Inr (Some (JsonNum (ship_x s)))
     \<and> get_property v ''y'' = Inr (Some (JsonNum (ship_y s)))"
  unfolding as_SpaceShip_def
  by (auto split: sum.splits option.splits json.splits)

lemma onServerMessage_ship:
  "as_SpaceShip v = Some s \<Longrightarrow> onServerMessage add v g = Inr (upsert add s g)"
  by (simp add: onServerMessage_def upsert_def as_SpaceShip_members)

lemma forEach_players_ships:
  "those (map (\<lambda>player. as_SpaceShip (Some player)) players) = Some ships \<Longrightarrow>
     forEach_players add players g = (fold (upsert add) ships g, None)"
proof (induction players arbitrary: ships g)
  case Nil
  then show ?case by simp
next
  case (Cons p ps)
  from Cons.prems obtain s ss where
    s: "as_SpaceShip (Some p) = Some s" and
    ss: "those (map (\<lambda>player. as_SpaceShip (Some player)) ps) = Some ss" and
    ships: "ships = s # ss"
    by (auto split: option.splits)
  show ?case by (simp add: ships onServerMessage_ship[OF s] Cons.IH[OF ss])
qed

lemma handleMessage_Update:
  assumes "as_ServerMessage ev = Some (Update ships)"
  shows "handleMessage add g (JSON ev) = (g\<lparr>graphics := fold (upsert add) ships (graphics g)\<rparr>, None)"
proof -
  from assms obtain t players where
    t: "get_property (Some ev) ''type'' = Inr t" and
    nc: "\<not> strict_equals_number t (ServerMessageType_value CONNECT)" and
    nd: "\<not> strict_equals_number t (ServerMessageType_value DISCONNECT)" and
    u: "strict_equals_number t (ServerMessageType_value UPDATE)" and
    ps: "get_property (Some ev) ''players'' = Inr (Some (JsonArr players))" and
    th: "those (map (\<lambda>player. as_SpaceShip (Some player)) players) = Some ships"
    unfolding as_ServerMessage_def
    by (auto split: sum.splits if_splits option.splits json.splits)
  show ?thesis
    unfolding handleMessage_def handleMessage_try_def JSON_parse_def
    using nc nd u by (simp add: t ps forEach_players_ships[OF th])
qed

lemma handleMessage_Connect:
  assumes "as_ServerMessage ev = Some (Connect s)"
  shows "handleMessage add g (JSON ev) =
           (g\<lparr>socket := (socket g)\<lparr>socket_id := Some (JsonStr (ship_id s))\<rparr>,
              graphics := upsert add s (graphics g)\<rparr>, None)"
proof -
  from assms obtain t player where
    t: "get_property (Some ev) ''type'' = Inr t" and
    c: "strict_equals_number t (ServerMessageType_value CONNECT)" and
    p: "get_property (Some ev) ''player'' = Inr player" and
    s: "as_SpaceShip player = Some s"
    unfolding as_ServerMessage_def
    by (auto split: sum.splits if_splits option.splits json.splits)
  show ?thesis
    unfolding handleMessage_def handleMessage_try_def JSON_parse_def
    using c by (simp add: t p as_SpaceShip_members[OF s] onServerMessage_ship[OF s] Let_def)
qed

lemma handleMessage_Disconnect:
  assumes "as_ServerMessage ev = Some (Disconnect i)"
  shows "handleMessage add g (JSON ev) =
           (g\<lparr>graphics := removeTriangle (graphics g) (Some (JsonStr i))\<rparr>, None)"
proof -
  from assms obtain t where
    t: "get_property (Some ev) ''type'' = Inr t" and
    nc: "\<not> strict_equals_number t (ServerMessageType_value CONNECT)" and
    d: "strict_equals_number t (ServerMessageType_value DISCONNECT)" and
    p: "get_property (Some ev) ''playerId'' = Inr (Some (JsonStr i))"
    unfolding as_ServerMessage_def
    by (auto split: sum.splits if_splits option.splits json.splits)
  show ?thesis
    unfolding handleMessage_def handleMessage_try_def JSON_parse_def
    using nc d by (simp add: t p onDisconnect_def)
qed

section \<open>Disconnect\<close>

lemma find_filter_other_key:
  "k \<noteq> Some (JsonStr i) \<Longrightarrow>
     find (\<lambda>(k', v'). same_value_zero k' k) (filter (\<lambda>(k', v'). k' \<noteq> Some (JsonStr i)) m)
       = find (\<lambda>(k', v'). same_value_zero k' k) m"
  by (induction m) (auto simp: svz_str_left)

lemma map_of_filter_key:
  "map_of (filter (\<lambda>(k', v'). k' \<noteq> K) m) k = (if k = K then None else map_of m k)"
  by (induction m) auto

lemma filter_absent_key:
  "map_of m K = None \<Longrightarrow> filter (\<lambda>(k', v'). k' \<noteq> K) m = m"
  by (induction m) (auto split: if_splits)

text \<open>
  Claim C6: a \<open>DISCONNECT\<close> event for the identifier \<open>i\<close> is handled as
  \<open>removeTriangle\<close> of \<open>i\<close>, without an exception; after \<open>removeTriangle\<close> the map is the
  map before without the entries of key \<open>i\<close>: it has no entry for \<open>i\<close>, every other key
  answers as before, and when \<open>i\<close> had no entry nothing at all has changed.
\<close>

theorem disconnect_removes_entry:
  "as_ServerMessage ev = Some (Disconnect i) \<Longrightarrow>
     handleMessage add g (JSON ev)
       = (g\<lparr>graphics := removeTriangle (graphics g) (Some (JsonStr i))\<rparr>, None)
     \<and> positions (removeTriangle gr (Some (JsonStr i)))
         = filter (\<lambda>(k, v). k \<noteq> Some (JsonStr i)) (positions gr)
     \<and> Map_get (positions (removeTriangle gr (Some (JsonStr i)))) (Some (JsonStr i)) = None
     \<and> (\<forall>k. k \<noteq> Some (JsonStr i) \<longrightarrow>
           Map_get (positions (removeTriangle gr (Some (JsonStr i)))) k = Map_get (positions gr) k)
     \<and> (Map_get (positions gr) (Some (JsonStr i)) = None \<longrightarrow>
           removeTriangle gr (Some (JsonStr i)) = gr)"
proof -
  assume ev: "as_ServerMessage ev = Some (Disconnect i)"
  let ?K = "Some (JsonStr i)"
  have p: "positions (removeTriangle gr ?K) = filter (\<lambda>(k, v). k \<noteq> ?K) (positions gr)"
    by (simp add: removeTriangle_def Map_delete_str)
  have a: "Map_get (positions (removeTriangle gr ?K)) ?K = None"
    by (simp add: p Map_get_str map_of_filter_key)
  have b: "\<forall>k. k \<noteq> ?K \<longrightarrow> Map_get (positions (removeTriangle gr ?K)) k = Map_get (positions gr) k"
    by (simp add: p Map_get_def find_filter_other_key)
  have c: "Map_get (positions gr) ?K = None \<longrightarrow> removeTriangle gr ?K = gr"
    by (simp add: removeTriangle_def Map_delete_str Map_get_str filter_absent_key)
  show ?thesis using handleMessage_Disconnect[OF ev, of add g] p a b c by simp
qed

section \<open>Update\<close>

lemma upsert_put: "upsert add s gr = gr\<lparr>positions := put add s (positions gr)\<rparr>"
  by (simp add: upsert_def updateTrianglePosition_def render_position_def put_def)

lemma fold_upsert_put:
  "fold (upsert add) ships gr = gr\<lparr>positions := fold (put add) ships (positions gr)\<rparr>"
  by (induction ships arbitrary: gr) (simp_all add: upsert_put)

lemma map_of_put:
  "map_of (put add s m) k =
     (if k = Some (JsonStr (ship_id s)) then Some (render_position add s) else map_of m k)"
  by (simp add: put_def map_of_Map_set_str)

lemma find_snoc:
  "find P (xs @ [x]) = (case find P xs of None \<Rightarrow> (if P x then Some x else None) | Some y \<Rightarrow> Some y)"
  by (induction xs) auto

lemma map_of_fold_put:
  "map_of (fold (put add) ships m) (Some (JsonStr i)) =
     (case find (\<lambda>s. ship_id s = i) (rev ships) of
        Some s \<Rightarrow> Some (render_position add s)
      | None \<Rightarrow> map_of m (Some (JsonStr i)))"
proof (induction ships arbitrary: m)
  case Nil
  show ?case by simp
next
  case (Cons s ships)
  show ?case
    by (simp add: Cons.IH map_of_put find_snoc split: option.splits)
qed

lemma render_position_eq:
  "render_position add s =
         [add (Some (JsonNum 0xBFA999999999999A)) (Some (JsonNum (ship_x s))),
          add (Some (JsonNum 0)) (Some (JsonNum (ship_y s))),
          add (Some (JsonNum 0)) (Some (JsonNum (ship_x s))),
          add (Some (JsonNum 0x3FB999999999999A)) (Some (JsonNum (ship_y s))),
          add (Some (JsonNum 0x3FA999999999999A)) (Some (JsonNum (ship_x s))),
          add (Some (JsonNum 0)) (Some (JsonNum (ship_y s)))]"
  by (simp only: render_position_def updatedPosition_loop_unfold)

text \<open>
  Claim C5: after an \<open>UPDATE\<close> event carrying a sequence of ships, the map holds, for each
  identifier \<open>i\<close> of the sequence, the position of the last ship of the sequence with
  that identifier, whatever it held before (the position stored is the six starting
  coordinates, each added to the ship's \<open>x\<close> or \<open>y\<close>); an identifier not in the sequence
  answers as before; the socket and the console are as they were and nothing is thrown.
\<close>

theorem update_last_write_wins:
  "as_ServerMessage ev = Some (Update ships) \<Longrightarrow>
     Map_get (positions (graphics (fst (handleMessage add g (JSON ev))))) (Some (JsonStr i))
       = (case find (\<lambda>s. ship_id s = i) (rev ships) of
            Some s \<Rightarrow> Some (render_position add s)
          | None \<Rightarrow> Map_get (positions (graphics g)) (Some (JsonStr i)))
     \<and> render_position add s =
         [add (Some (JsonNum 0xBFA999999999999A)) (Some (JsonNum (ship_x s))),
          add (Some (JsonNum 0)) (Some (JsonNum (ship_y s))),
          add (Some (JsonNum 0)) (Some (JsonNum (ship_x s))),
          add (Some (JsonNum 0x3FB999999999999A)) (Some (JsonNum (ship_y s))),
          add (Some (JsonNum 0x3FA999999999999A)) (Some (JsonNum (ship_x s))),
          add (Some (JsonNum 0)) (Some (JsonNum (ship_y s)))]
     \<and> socket (fst (handleMessage add g (JSON ev))) = socket g
     \<and> console (fst (handleMessage add g (JSON ev))) = console g
     \<and> snd (handleMessage add g (JSON ev)) = None"
proof -
  assume ev: "as_ServerMessage ev = Some (Update ships)"
  have h: "handleMessage add g (JSON ev)
             = (g\<lparr>graphics := fold (upsert add) ships (graphics g)\<rparr>, None)"
    by (rule handleMessage_Update[OF ev])
  have a: "Map_get (positions (graphics (fst (handleMessage add g (JSON ev))))) (Some (JsonStr i))
       = (case find (\<lambda>s. ship_id s = i) (rev ships) of
            Some s \<Rightarrow> Some (render_position add s)
          | None \<Rightarrow> Map_get (positions (graphics g)) (Some (JsonStr i)))"
    by (simp add: h fold_upsert_put Map_get_str map_of_fold_put cong: option.case_cong)
  show ?thesis using a render_position_eq[of add s] by (simp add: h)
qed

lemma set_put:
  "set (put add s m) =
     (if Some (JsonStr (ship_id s)) \<in> fst ` set m
      then (\<lambda>(k, v). (k, if k = Some (JsonStr (ship_id s)) then render_position add s else v)) ` set m
      else insert (Some (JsonStr (ship_id s)), render_position add s) (set m))"
proof -
  have "(\<lambda>(k', v'). if k' = Some (JsonStr (ship_id s)) then (k', render_position add s) else (k', v'))
      = (\<lambda>(k, v). (k, if k = Some (JsonStr (ship_id s)) then render_position add s else v))"
    by (rule ext) (simp add: split_def)
  then show ?thesis by (simp add: put_def Map_set_str)
qed

lemma keys_put_eq:
  "fst ` set (put add s m) = insert (Some (JsonStr (ship_id s))) (fst ` set m)"
proof (cases "Some (JsonStr (ship_id s)) \<in> fst ` set m")
  case True
  have "fst ` (\<lambda>(k, v). (k, if k = Some (JsonStr (ship_id s)) then render_position add s else v)) ` set m
          = fst ` set m"
    by (simp add: image_image split_def)
  with True show ?thesis by (auto simp: set_put)
next
  case False
  then show ?thesis by (simp add: set_put)
qed

lemma keys_put: "fst ` set m \<subseteq> fst ` set (put add s m)"
  by (auto simp: keys_put_eq)

lemma key_in_put: "Some (JsonStr (ship_id s)) \<in> fst ` set (put add s m)"
  by (simp add: keys_put_eq)

lemma keys_fold_put: "fst ` set m \<subseteq> fst ` set (fold (put add) ships m)"
proof (induction ships arbitrary: m)
  case Nil show ?case by simp
next
  case (Cons s ships)
  show ?case using keys_put[of m add s] Cons.IH[of "put add s m"] by auto
qed

lemma keys_of_batch:
  "s \<in> set ships \<Longrightarrow> Some (JsonStr (ship_id s)) \<in> fst ` set (fold (put add) ships m)"
proof (induction ships arbitrary: m)
  case Nil then show ?case by simp
next
  case (Cons a ships)
  show ?case
  proof (cases "s \<in> set ships")
    case True
    then show ?thesis using Cons.IH by simp
  next
    case False
    with Cons.prems have "s = a" by simp
    then show ?thesis using key_in_put[of a add m] keys_fold_put[of "put add a m" add ships] by auto
  qed
qed

lemma put_present:
  "Some (JsonStr (ship_id s)) \<in> fst ` set m \<Longrightarrow>
     put add s m = map (\<lambda>(k, v). (k, if k = Some (JsonStr (ship_id s)) then render_position add s else v)) m"
proof -
  assume a: "Some (JsonStr (ship_id s)) \<in> fst ` set m"
  have "(\<lambda>(k', v'). if k' = Some (JsonStr (ship_id s)) then (k', render_position add s) else (k', v'))
      = (\<lambda>(k, v). (k, if k = Some (JsonStr (ship_id s)) then render_position add s else v))"
    by (rule ext) (simp add: split_def)
  with a show ?thesis by (simp add: put_def Map_set_str)
qed

lemma fold_put_present:
  "\<forall>s \<in> set ships. Some (JsonStr (ship_id s)) \<in> fst ` set m \<Longrightarrow>
     fold (put add) ships m = map (\<lambda>(k, v). (k, override add ships k v)) m"
proof (induction ships arbitrary: m)
  case Nil
  show ?case by (simp add: override_def)
next
  case (Cons s ships)
  have here: "Some (JsonStr (ship_id s)) \<in> fst ` set m" using Cons.prems by simp
  have rest: "\<forall>s' \<in> set ships. Some (JsonStr (ship_id s')) \<in> fst ` set (put add s m)"
    using Cons.prems keys_put[of m add s] by auto
  have "fold (put add) (s # ships) m = fold (put add) ships (put add s m)" by simp
  also have "\<dots> = map (\<lambda>(k, v). (k, override add ships k v)) (put add s m)"
    by (rule Cons.IH[OF rest])
  also have "\<dots> = map (\<lambda>(k, v). (k, override add (s # ships) k v)) m"
    by (simp add: put_present[OF here] override_def split_def comp_def)
  finally show ?case .
qed

lemma override_snoc:
  "override add (ships @ [s]) k v =
     (if k = Some (JsonStr (ship_id s)) then render_position add s else override add ships k v)"
  by (simp add: override_def)

lemma fold_put_fixed:
  "(k, v) \<in> set (fold (put add) ships m) \<Longrightarrow> override add ships k v = v"
proof (induction ships arbitrary: k v rule: rev_induct)
  case Nil
  show ?case by (simp add: override_def)
next
  case (snoc s ships)
  let ?M = "fold (put add) ships m"
  let ?K = "Some (JsonStr (ship_id s))"
  from snoc.prems have mem: "(k, v) \<in> set (put add s ?M)" by simp
  show ?case
  proof (cases "k = ?K")
    case True
    have "v = render_position add s"
    proof (cases "?K \<in> fst ` set ?M")
      case in_keys: True
      then show ?thesis using mem True by (auto simp: set_put)
    next
      case False
      then have "(?K, v) \<notin> set ?M" by force
      with False show ?thesis using mem True by (auto simp: set_put)
    qed
    then show ?thesis by (simp add: override_snoc True)
  next
    case False
    have "(k, v) \<in> set ?M"
      using mem False by (auto simp: set_put split: if_splits)
    then show ?thesis using snoc.IH False by (simp add: override_snoc)
  qed
qed

lemma fold_put_idem: "fold (put add) ships (fold (put add) ships m) = fold (put add) ships m"
proof -
  let ?M = "fold (put add) ships m"
  have "\<forall>s \<in> set ships. Some (JsonStr (ship_id s)) \<in> fst ` set ?M"
    using keys_of_batch by blast
  then have "fold (put add) ships ?M = map (\<lambda>(k, v). (k, override add ships k v)) ?M"
    by (rule fold_put_present)
  also have "\<dots> = ?M"
    by (rule map_idI) (auto simp: fold_put_fixed)
  finally show ?thesis .
qed

text \<open>
  Claim C7: handling the same \<open>UPDATE\<close> event a second time leaves the state, and so the
  map entry for entry, as the first handling left it.
\<close>

theorem update_idempotent:
  "as_ServerMessage ev = Some (Update ships) \<Longrightarrow>
     fst (handleMessage add (fst (handleMessage add g (JSON ev))) (JSON ev))
       = fst (handleMessage add g (JSON ev))"
  by (simp add: handleMessage_Update fold_upsert_put fold_put_idem)

section \<open>Messages that are no protocol event, and the local identity\<close>

lemma handleMessage_try_unrecognised:
  assumes "unrecognised v"
  shows "\<exists>thrown. handleMessage_try add g (JSON v) = (g, thrown)"
proof (cases "get_property (Some v) ''type''")
  case (Inl e)
  then show ?thesis by (simp add: handleMessage_try_def JSON_parse_def)
next
  case (Inr t)
  show ?thesis
  proof (cases "strict_equals_number t (ServerMessageType_value CONNECT)")
    case c: True
    from assms have "get_property (Some v) ''player'' = Inr None
                     \<or> get_property (Some v) ''player'' = Inr (Some JsonNull)"
      unfolding unrecognised_def using Inr c
      by (simp split: sum.splits option.splits json.splits)
    then show ?thesis using Inr c
      by (auto simp: handleMessage_try_def JSON_parse_def)
  next
    case nc: False
    show ?thesis
    proof (cases "strict_equals_number t (ServerMessageType_value DISCONNECT)")
      case True
      with assms Inr nc show ?thesis by (simp add: unrecognised_def)
    next
      case nd: False
      show ?thesis
      proof (cases "strict_equals_number t (ServerMessageType_value UPDATE)")
        case u: True
        from assms have na: "\<nexists>players. get_property (Some v) ''players'' = Inr (Some (JsonArr players))"
          unfolding unrecognised_def using Inr nc nd u by auto
        show ?thesis
        proof (cases "get_property (Some v) ''players''")
          case (Inl e)
          then show ?thesis using Inr nc nd u by (simp add: handleMessage_try_def JSON_parse_def)
        next
          case r: (Inr ps)
          show ?thesis
          proof (cases ps)
            case None
            then show ?thesis using Inr nc nd u r by (simp add: handleMessage_try_def JSON_parse_def)
          next
            case (Some p)
            then show ?thesis using Inr nc nd u r na
              by (cases p) (simp_all add: handleMessage_try_def JSON_parse_def)
          qed
        qed
      next
        case False
        then show ?thesis using Inr nc nd by (simp add: handleMessage_try_def JSON_parse_def)
      qed
    qed
  qed
qed

lemma handleMessage_inert:
  assumes "inert message"
  shows "graphics (fst (handleMessage add g message)) = graphics g
         \<and> socket (fst (handleMessage add g message)) = socket g"
proof (cases message)
  case (NotJSON s)
  then show ?thesis by (simp add: handleMessage_def handleMessage_try_def JSON_parse_def)
next
  case (JSON v)
  with assms have "unrecognised v" by (simp add: inert_def)
  from handleMessage_try_unrecognised[OF this, of add g] obtain thrown where
    "handleMessage_try add g (JSON v) = (g, thrown)" by blast
  then show ?thesis using JSON by (cases thrown) (simp_all add: handleMessage_def)
qed

lemma as_SpaceShip_null: "as_SpaceShip (Some JsonNull) = None"
  by (simp add: as_SpaceShip_def)

lemma as_SpaceShip_absent: "as_SpaceShip None = None"
  by (simp add: as_SpaceShip_def)

lemma unrecognised_no_event:
  assumes "unrecognised v"
  shows "as_ServerMessage v = None"
proof (cases "get_property (Some v) ''type''")
  case (Inl e)
  then show ?thesis by (simp add: as_ServerMessage_def)
next
  case (Inr t)
  show ?thesis
  proof (cases "strict_equals_number t (ServerMessageType_value CONNECT)")
    case c: True
    from assms have "get_property (Some v) ''player'' = Inr None
                     \<or> get_property (Some v) ''player'' = Inr (Some JsonNull)"
      unfolding unrecognised_def using Inr c
      by (simp split: sum.splits option.splits json.splits)
    then show ?thesis using Inr c
      by (auto simp: as_ServerMessage_def as_SpaceShip_absent as_SpaceShip_null)
  next
    case nc: False
    show ?thesis
    proof (cases "strict_equals_number t (ServerMessageType_value DISCONNECT)")
      case True
      with assms Inr nc show ?thesis by (simp add: unrecognised_def)
    next
      case nd: False
      show ?thesis
      proof (cases "strict_equals_number t (ServerMessageType_value UPDATE)")
        case u: True
        from assms have na: "\<nexists>players. get_property (Some v) ''players'' = Inr (Some (JsonArr players))"
          unfolding unrecognised_def using Inr nc nd u by auto
        then show ?thesis using Inr nc nd u
          by (simp add: as_ServerMessage_def split: sum.splits option.splits json.splits)
      next
        case False
        then show ?thesis using Inr nc nd by (simp add: as_ServerMessage_def)
      qed
    qed
  qed
qed

lemma inert_no_event: "inert message \<Longrightarrow> decode message = None"
  by (cases message) (simp_all add: inert_def decode_def unrecognised_no_event)

text \<open>
  Claim C3, as the source has it: no exception leaves \<open>handleMessage\<close>, whatever the
  message; text that is not JSON is logged and changes nothing else; and a message that is
  not JSON, or whose \<open>type\<close> is none of the numbers 0, 1, 2, or that is a \<open>CONNECT\<close> without
  a \<open>player\<close> or an \<open>UPDATE\<close> whose \<open>players\<close> is not an array, is no protocol event and
  leaves the map of positions and the local identity (the whole of the graphics and of the
  socket) as they were.
\<close>

theorem malformed_is_inert:
  "snd (handleMessage add g message) = None
   \<and> fst (handleMessage add g (NotJSON text)) = g\<lparr>console := console g @ [SyntaxError]\<rparr>
   \<and> (inert message \<longrightarrow>
        decode message = None
        \<and> positions (graphics (fst (handleMessage add g message))) = positions (graphics g)
        \<and> socket_id (socket (fst (handleMessage add g message))) = socket_id (socket g)
        \<and> graphics (fst (handleMessage add g message)) = graphics g
        \<and> socket (fst (handleMessage add g message)) = socket g)"
proof -
  have a: "snd (handleMessage add g message) = None"
    by (simp add: handleMessage_def split: prod.splits option.splits)
  have b: "fst (handleMessage add g (NotJSON text)) = g\<lparr>console := console g @ [SyntaxError]\<rparr>"
    by (simp add: handleMessage_def handleMessage_try_def JSON_parse_def)
  show ?thesis using a b handleMessage_inert[of message add g] inert_no_event[of message] by simp
qed

lemma decode_Some:
  "decode message = Some e \<Longrightarrow> \<exists>ev. message = JSON ev \<and> as_ServerMessage ev = Some e"
  by (cases message) (simp_all add: decode_def)

lemma socket_id_step:
  assumes "decode message = Some e"
  shows "socket_id (socket (fst (handleMessage add g message))) =
           (case e of Connect s \<Rightarrow> Some (JsonStr (ship_id s)) | _ \<Rightarrow> socket_id (socket g))"
proof -
  from decode_Some[OF assms] obtain ev where
    m: "message = JSON ev" and ev: "as_ServerMessage ev = Some e" by blast
  show ?thesis
  proof (cases e)
    case (Connect s)
    then show ?thesis using handleMessage_Connect[of ev s add g] ev by (simp add: m)
  next
    case (Disconnect i)
    then show ?thesis using handleMessage_Disconnect[of ev i add g] ev by (simp add: m)
  next
    case (Update ships)
    then show ?thesis using handleMessage_Update[of ev ships add g] ev by (simp add: m)
  qed
qed

text \<open>
  Claim C2, as the source has it: every \<open>CONNECT\<close> event sets the local identity, whether
  or not it was set. After a sequence of protocol events the local identity is the
  identifier of the last \<open>CONNECT\<close> of the sequence, and the identity before when the
  sequence has none.
\<close>

theorem identity_is_last_connect:
  "map decode messages = map Some events \<Longrightarrow>
     socket_id (socket (handleMessages add g messages)) =
       (case last_connect events of
          Some i \<Rightarrow> Some (JsonStr i)
        | None \<Rightarrow> socket_id (socket g))"
proof (induction messages arbitrary: events g)
  case Nil
  then show ?case by simp
next
  case (Cons message messages)
  from Cons.prems obtain e es where
    events: "events = e # es" and e: "decode message = Some e" and
    es: "map decode messages = map Some es"
    by (cases events) auto
  note step = socket_id_step[OF e, of add g]
  note ih = Cons.IH[OF es, of "fst (handleMessage add g message)"]
  show ?case
    by (cases e) (simp_all add: events ih step split: option.splits)
qed

section \<open>Examples\<close>

lemma tag_values:
  "number_strict_equals num_0 num_0"
  "\<not> number_strict_equals num_1 num_0"
  "number_strict_equals num_1 num_1"
  "\<not> number_strict_equals num_2 num_0"
  "\<not> number_strict_equals num_2 num_1"
  "number_strict_equals num_2 num_2"
  by (simp_all add: number_strict_equals_def is_NaN_def is_zero_def num_0_def num_1_def num_2_def)

lemma as_SpaceShip_ship_json:
  "as_SpaceShip (Some (ship_json i x y)) = Some \<lparr>ship_id = i, ship_x = x, ship_y = y\<rparr>"
  by (simp add: as_SpaceShip_def ship_json_def)

lemma decode_connect_json:
  "decode (JSON (connect_json (ship_json i x y))) = Some (Connect \<lparr>ship_id = i, ship_x = x, ship_y = y\<rparr>)"
  by (simp add: decode_def as_ServerMessage_def connect_json_def tag_values as_SpaceShip_ship_json)

lemma decode_disconnect_json:
  "decode (JSON (disconnect_json i)) = Some (Disconnect i)"
  by (simp add: decode_def as_ServerMessage_def disconnect_json_def tag_values)

lemma decode_update_json:
  "those (map (\<lambda>player. as_SpaceShip (Some player)) players) = Some ships \<Longrightarrow>
     decode (JSON (update_json players)) = Some (Update ships)"
  by (simp add: decode_def as_ServerMessage_def update_json_def tag_values)

lemma sample_sums:
  "add_sample (Some (JsonNum 0xBFA999999999999A)) (Some (JsonNum num_0)) = JsonNum 0xBFA999999999999A"
  "add_sample (Some (JsonNum 0)) (Some (JsonNum num_0)) = JsonNum 0"
  "add_sample (Some (JsonNum 0x3FB999999999999A)) (Some (JsonNum num_0)) = JsonNum 0x3FB999999999999A"
  "add_sample (Some (JsonNum 0x3FA999999999999A)) (Some (JsonNum num_0)) = JsonNum 0x3FA999999999999A"
  "add_sample (Some (JsonNum 0xBFA999999999999A)) (Some (JsonNum num_1)) = JsonNum 0x3FEE666666666666"
  "add_sample (Some (JsonNum 0)) (Some (JsonNum num_1)) = JsonNum 0x3FF0000000000000"
  "add_sample (Some (JsonNum 0x3FB999999999999A)) (Some (JsonNum num_1)) = JsonNum 0x3FF199999999999A"
  "add_sample (Some (JsonNum 0x3FA999999999999A)) (Some (JsonNum num_1)) = JsonNum 0x3FF0CCCCCCCCCCCD"
  "add_sample (Some (JsonNum a)) None = JsonNum 0x7FF8000000000000"
  by (simp_all add: add_sample_def is_zero_def num_0_def num_1_def)

text \<open>
  Claim C2, as it is worded, fails: after a \<open>CONNECT\<close> for \<open>p1\<close> the local identity is
  \<open>p1\<close>, and after a later \<open>CONNECT\<close> for \<open>p2\<close> it is \<open>p2\<close>.
\<close>

theorem second_connect_replaces_identity:
  "socket_id (socket (handleMessages add_sample game_0
      [JSON (connect_json (ship_json ''p1'' num_0 num_0))])) = Some (JsonStr ''p1'')
   \<and> socket_id (socket (handleMessages add_sample game_0
      [JSON (connect_json (ship_json ''p1'' num_0 num_0)),
       JSON (connect_json (ship_json ''p2'' num_0 num_0))])) = Some (JsonStr ''p2'')
   \<and> socket_id (socket (handleMessages add_sample game_0
      [JSON (connect_json (ship_json ''p1'' num_0 num_0)),
       JSON (connect_json (ship_json ''p2'' num_0 num_0))])) \<noteq> Some (JsonStr ''p1'')"
proof -
  have c: "\<And>i g. handleMessage add_sample g (JSON (connect_json (ship_json i num_0 num_0)))
       = (g\<lparr>socket := (socket g)\<lparr>socket_id := Some (JsonStr i)\<rparr>,
             graphics := upsert add_sample \<lparr>ship_id = i, ship_x = num_0, ship_y = num_0\<rparr> (graphics g)\<rparr>, None)"
    using decode_connect_json handleMessage_Connect by (simp add: decode_def)
  show ?thesis by (simp add: c)
qed

theorem identity_is_last_connect_witness:
  "map decode [JSON (connect_json (ship_json ''p1'' num_0 num_0)),
               JSON (update_json [ship_json ''p1'' num_1 num_0, ship_json ''p2'' num_0 num_1]),
               JSON (connect_json (ship_json ''p2'' num_0 num_1)),
               JSON (disconnect_json ''p1'')]
     = map Some [Connect \<lparr>ship_id = ''p1'', ship_x = num_0, ship_y = num_0\<rparr>,
                 Update [\<lparr>ship_id = ''p1'', ship_x = num_1, ship_y = num_0\<rparr>,
                         \<lparr>ship_id = ''p2'', ship_x = num_0, ship_y = num_1\<rparr>],
                 Connect \<lparr>ship_id = ''p2'', ship_x = num_0, ship_y = num_1\<rparr>,
                 Disconnect ''p1'']
   \<and> socket_id (socket (handleMessages add_sample game_0
        [JSON (connect_json (ship_json ''p1'' num_0 num_0)),
         JSON (update_json [ship_json ''p1'' num_1 num_0, ship_json ''p2'' num_0 num_1]),
         JSON (connect_json (ship_json ''p2'' num_0 num_1)),
         JSON (disconnect_json ''p1'')])) = Some (JsonStr ''p2'')"
proof -
  have d: "map decode [JSON (connect_json (ship_json ''p1'' num_0 num_0)),
               JSON (update_json [ship_json ''p1'' num_1 num_0, ship_json ''p2'' num_0 num_1]),
               JSON (connect_json (ship_json ''p2'' num_0 num_1)),
               JSON (disconnect_json ''p1'')]
     = map Some [Connect \<lparr>ship_id = ''p1'', ship_x = num_0, ship_y = num_0\<rparr>,
                 Update [\<lparr>ship_id = ''p1'', ship_x = num_1, ship_y = num_0\<rparr>,
                         \<lparr>ship_id = ''p2'', ship_x = num_0, ship_y = num_1\<rparr>],
                 Connect \<lparr>ship_id = ''p2'', ship_x = num_0, ship_y = num_1\<rparr>,
                 Disconnect ''p1'']"
    by (simp add: decode_connect_json decode_disconnect_json decode_update_json as_SpaceShip_ship_json)
  show ?thesis using d identity_is_last_connect[OF d, of add_sample game_0] by simp
qed

lemma as_ServerMessage_batch_sample:
  "as_ServerMessage (update_json batch_sample) = Some (Update ships_sample)"
  using decode_update_json[of batch_sample ships_sample]
  by (simp add: decode_def batch_sample_def ships_sample_def as_SpaceShip_ship_json)

lemma as_ServerMessage_disconnect_json:
  "as_ServerMessage (disconnect_json i) = Some (Disconnect i)"
  using decode_disconnect_json[of i] by (simp add: decode_def)

text \<open>
  Claim C3, as it is worded, fails. An \<open>UPDATE\<close> whose second player is \<open>null\<close> is no
  protocol event; the first player is stored, then the callback throws, the error is
  logged, and the map has changed. A \<open>CONNECT\<close> whose player has an \<open>id\<close> and no
  coordinates is no protocol event either, and it sets the local identity.
\<close>

theorem malformed_payload_changes_state:
  "decode (JSON (update_json [ship_json ''a'' num_0 num_0, JsonNull])) = None
   \<and> fst (handleMessage add_sample game_0 (JSON (update_json [ship_json ''a'' num_0 num_0, JsonNull])))
       = game_0\<lparr>graphics := graphics_0\<lparr>positions :=
                   [(Some (JsonStr ''a''),
                     [JsonNum 0xBFA999999999999A, JsonNum 0, JsonNum 0,
                      JsonNum 0x3FB999999999999A, JsonNum 0x3FA999999999999A, JsonNum 0])]\<rparr>,
                 console := [TypeError]\<rparr>
   \<and> positions (graphics (fst (handleMessage add_sample game_0
          (JSON (update_json [ship_json ''a'' num_0 num_0, JsonNull])))))
       \<noteq> positions (graphics game_0)
   \<and> decode (JSON (connect_json (JsonObj [(''id'', JsonStr ''q'')]))) = None
   \<and> socket_id (socket (fst (handleMessage add_sample game_0
          (JSON (connect_json (JsonObj [(''id'', JsonStr ''q'')])))))) = Some (JsonStr ''q'')
   \<and> socket_id (socket game_0) = None"
proof -
  have d1: "decode (JSON (update_json [ship_json ''a'' num_0 num_0, JsonNull])) = None"
    by (simp add: decode_def as_ServerMessage_def update_json_def tag_values
          as_SpaceShip_ship_json as_SpaceShip_null)
  have h1: "fst (handleMessage add_sample game_0 (JSON (update_json [ship_json ''a'' num_0 num_0, JsonNull])))
       = game_0\<lparr>graphics := graphics_0\<lparr>positions :=
                   [(Some (JsonStr ''a''),
                     [JsonNum 0xBFA999999999999A, JsonNum 0, JsonNum 0,
                      JsonNum 0x3FB999999999999A, JsonNum 0x3FA999999999999A, JsonNum 0])]\<rparr>,
                 console := [TypeError]\<rparr>"
    by (simp add: handleMessage_def handleMessage_try_def JSON_parse_def update_json_def
          tag_values onServerMessage_def ship_json_def updateTrianglePosition_def
          updatedPosition_loop_unfold Map_set_str sample_sums game_0_def graphics_0_def)
  have d2: "decode (JSON (connect_json (JsonObj [(''id'', JsonStr ''q'')]))) = None"
    by (simp add: decode_def as_ServerMessage_def connect_json_def tag_values as_SpaceShip_def)
  have h2: "socket_id (socket (fst (handleMessage add_sample game_0
          (JSON (connect_json (JsonObj [(''id'', JsonStr ''q'')])))))) = Some (JsonStr ''q'')"
    by (simp add: handleMessage_def handleMessage_try_def JSON_parse_def connect_json_def
          tag_values onServerMessage_def Let_def)
  have i0: "socket_id (socket game_0) = None" by (simp add: game_0_def socket_0_def)
  have p0: "positions (graphics game_0) = []" by (simp add: game_0_def graphics_0_def)
  show ?thesis using d1 d2 h2 i0 by (simp add: h1 p0)
qed

theorem malformed_is_inert_witness:
  "inert (NotJSON ''hello'')
   \<and> inert (JSON (JsonObj [(''type'', JsonStr ''CONNECT''), (''player'', ship_json ''p1'' num_0 num_0)]))
   \<and> graphics (fst (handleMessage add_sample game_0
        (JSON (JsonObj [(''type'', JsonStr ''CONNECT''), (''player'', ship_json ''p1'' num_0 num_0)]))))
       = graphics_0
   \<and> socket_id (socket (fst (handleMessage add_sample game_0
        (JSON (JsonObj [(''type'', JsonStr ''CONNECT''), (''player'', ship_json ''p1'' num_0 num_0)])))))
       = None
   \<and> fst (handleMessage add_sample game_0 (NotJSON ''hello'')) = game_0\<lparr>console := [SyntaxError]\<rparr>"
proof -
  have i: "inert (JSON (JsonObj [(''type'', JsonStr ''CONNECT''), (''player'', ship_json ''p1'' num_0 num_0)]))"
    by (simp add: inert_def unrecognised_def)
  show ?thesis
    using i malformed_is_inert[of add_sample game_0
        "JSON (JsonObj [(''type'', JsonStr ''CONNECT''), (''player'', ship_json ''p1'' num_0 num_0)])" "''hello''"]
    by (simp add: inert_def game_0_def socket_0_def)
qed

theorem update_last_write_wins_witness:
  "as_ServerMessage (update_json batch_sample) = Some (Update ships_sample)
   \<and> Map_get (positions (graphics (fst (handleMessage add_sample game_0 (JSON (update_json batch_sample))))))
        (Some (JsonStr ''p1''))
       = Some [JsonNum 0x3FEE666666666666, JsonNum 0, JsonNum 0x3FF0000000000000,
               JsonNum 0x3FB999999999999A, JsonNum 0x3FF0CCCCCCCCCCCD, JsonNum 0]"
  using update_last_write_wins[OF as_ServerMessage_batch_sample, of add_sample game_0 "''p1''"
          "\<lparr>ship_id = ''p1'', ship_x = num_1, ship_y = num_0\<rparr>"]
  by (simp add: as_ServerMessage_batch_sample ships_sample_def sample_sums)

theorem disconnect_removes_entry_witness:
  "as_ServerMessage (disconnect_json ''p2'') = Some (Disconnect ''p2'')
   \<and> positions (graphics (fst (handleMessage add_sample
        (game_0\<lparr>graphics := graphics_0\<lparr>positions :=
            [(Some (JsonStr ''p1''), [JsonNum num_0]), (Some (JsonStr ''p2''), [JsonNum num_1])]\<rparr>\<rparr>)
        (JSON (disconnect_json ''p2'')))))
       = [(Some (JsonStr ''p1''), [JsonNum num_0])]"
  using disconnect_removes_entry[OF as_ServerMessage_disconnect_json, of add_sample
          "game_0\<lparr>graphics := graphics_0\<lparr>positions :=
            [(Some (JsonStr ''p1''), [JsonNum num_0]), (Some (JsonStr ''p2''), [JsonNum num_1])]\<rparr>\<rparr>"
          "''p2''"
          "graphics_0\<lparr>positions :=
            [(Some (JsonStr ''p1''), [JsonNum num_0]), (Some (JsonStr ''p2''), [JsonNum num_1])]\<rparr>"]
  by (simp add: as_ServerMessage_disconnect_json)

theorem update_idempotent_witness:
  "as_ServerMessage (update_json batch_sample) = Some (Update ships_sample)
   \<and> fst (handleMessage add_sample
        (fst (handleMessage add_sample game_0 (JSON (update_json batch_sample))))
        (JSON (update_json batch_sample)))
       = fst (handleMessage add_sample game_0 (JSON (update_json batch_sample)))"
  using update_idempotent[OF as_ServerMessage_batch_sample, of add_sample game_0]
  by (simp add: as_ServerMessage_batch_sample)

end
